theory Spec2Isabelle
  imports Main
begin

section \<open>Types of the application\<close>

text \<open>
  The type \<^verbatim>\<open>AspectRatio\<close> of the source is a union of five string literals,
  \<^verbatim>\<open>"1:1" | "3:4" | "4:3" | "9:16" | "16:9"\<close>. Each literal is a constructor here,
  and \<open>literal\<close> gives the string it stands for.
\<close>

datatype AspectRatio = R1_1 | R3_4 | R4_3 | R9_16 | R16_9

definition literal :: "AspectRatio \<Rightarrow> string" where
  "literal r =
     (case r of
        R1_1 \<Rightarrow> ''1:1''
      | R3_4 \<Rightarrow> ''3:4''
      | R4_3 \<Rightarrow> ''4:3''
      | R9_16 \<Rightarrow> ''9:16''
      | R16_9 \<Rightarrow> ''16:9'')"

text \<open>\<^verbatim>\<open>export const ASPECT_RATIOS: AspectRatio[] = ["3:4", "9:16"];\<close>\<close>

definition ASPECT_RATIOS :: "AspectRatio list" where
  "ASPECT_RATIOS = [R3_4, R9_16]"

text \<open>
  An uploaded \<^verbatim>\<open>File\<close> is opaque to the component: it is only tested against
  \<^verbatim>\<open>null\<close> and handed on. It is identified by its name here.
\<close>

datatype File = File string

text \<open>
  What a \<^verbatim>\<open>catch\<close> clause can receive: an instance of \<^verbatim>\<open>Error\<close>, which has a
  message, or any other JavaScript value.
\<close>

datatype js_value = JSUndefined | JSNull | JSBoolean bool | JSNumber int | JSString string | JSObject

datatype thrown = ErrorInstance string | NotAnError js_value

text \<open>
  The promise returned by \<^verbatim>\<open>generate\<close> settles in one of two ways: it resolves to
  an image URL or it rejects with a thrown value.
\<close>

datatype outcome = Resolved string | Rejected thrown

type_synonym call = "string \<times> AspectRatio \<times> File option"

type_synonym client = "string \<Rightarrow> AspectRatio \<Rightarrow> File option \<Rightarrow> outcome"

section \<open>The state of the component\<close>

text \<open>One field for each \<^verbatim>\<open>useState\<close> hook of \<^verbatim>\<open>App\<close>; \<^verbatim>\<open>null\<close> is \<open>None\<close>.\<close>

record state =
  prompt :: string
  uploadedImage :: "File option"
  selectedStyle :: string
  selectedAspectRatio :: AspectRatio
  isLoading :: bool
  generatedImageUrl :: "string option"
  error :: "string option"
  isTextOnlyResult :: bool

text \<open>The initial values given to the hooks.\<close>

definition initial :: state where
  "initial =
     \<lparr>prompt = [], uploadedImage = None, selectedStyle = ''Fairy Tale'',
      selectedAspectRatio = R3_4, isLoading = False, generatedImageUrl = None,
      error = None, isTextOnlyResult = True\<rparr>"

definition styles :: "string list" where
  "styles = [''Fairy Tale'', ''Cyberpunk'', ''Fantasy'', ''Animation'', ''Retro'', ''Steampunk'']"

section \<open>Strings\<close>

text \<open>
  \<^verbatim>\<open>String.prototype.toLowerCase\<close> on the characters of this model: the letters
  \<^verbatim>\<open>A\<close> to \<^verbatim>\<open>Z\<close> (codes 65 to 90) move to \<^verbatim>\<open>a\<close> to \<^verbatim>\<open>z\<close>, every other
  character stays. The style labels of \<open>styles\<close> are ASCII text.
\<close>

definition toLowerCase_char :: "char \<Rightarrow> char" where
  "toLowerCase_char c =
     (let n = (of_char c :: nat) in if 65 \<le> n \<and> n \<le> 90 then char_of (n + 32) else c)"

definition toLowerCase :: "string \<Rightarrow> string" where
  "toLowerCase str = map toLowerCase_char str"

text \<open>
  JavaScript truthiness of a value of type \<^verbatim>\<open>string | null\<close>: \<^verbatim>\<open>null\<close> and the
  empty string are falsy.
\<close>

definition truthy :: "string option \<Rightarrow> bool" where
  "truthy v = (case v of None \<Rightarrow> False | Some str \<Rightarrow> str \<noteq> [])"

section \<open>The handlers\<close>

text \<open>
  \<^verbatim>\<open>handleGenerateClick\<close> is an \<^verbatim>\<open>async\<close> function with one \<^verbatim>\<open>await\<close>. Its
  synchronous part, up to the call of \<^verbatim>\<open>generate\<close>, either returns early or
  leaves a call to the client pending; \<open>handleGenerateClick_start\<close> is that part. The
  optional parameter \<^verbatim>\<open>newAspectRatio\<close> is \<open>None\<close> when the handler is called with
  no argument. Every member of \<^verbatim>\<open>AspectRatio\<close> is a non-empty string, so the tests
  \<^verbatim>\<open>newAspectRatio || selectedAspectRatio\<close> and \<^verbatim>\<open>if (newAspectRatio)\<close> only ask
  whether the argument was given. \<^verbatim>\<open>!prompt\<close> holds of the empty string only, and
  \<^verbatim>\<open>!uploadedImage\<close> of \<^verbatim>\<open>null\<close> only.
\<close>

datatype started = Returned state | Awaiting state call

definition finalPrompt :: "state \<Rightarrow> string" where
  "finalPrompt s = prompt s @ '', in a '' @ toLowerCase (selectedStyle s) @ '' style.''"

definition currentAspectRatio :: "AspectRatio option \<Rightarrow> state \<Rightarrow> AspectRatio" where
  "currentAspectRatio newAspectRatio s =
     (case newAspectRatio of Some r \<Rightarrow> r | None \<Rightarrow> selectedAspectRatio s)"

definition handleGenerateClick_start :: "AspectRatio option \<Rightarrow> state \<Rightarrow> started" where
  "handleGenerateClick_start newAspectRatio s =
     (if prompt s = [] \<and> uploadedImage s = None then
        Returned (s\<lparr>error := Some ''Please write a prompt or upload an image.''\<rparr>)
      else if isLoading s then Returned s
      else
        let s1 = s\<lparr>isLoading := True, error := None, generatedImageUrl := None\<rparr>;
            s2 = (case newAspectRatio of Some r \<Rightarrow> s1\<lparr>selectedAspectRatio := r\<rparr> | None \<Rightarrow> s1);
            s3 = s2\<lparr>isTextOnlyResult := (uploadedImage s = None)\<rparr>
        in Awaiting s3 (finalPrompt s, currentAspectRatio newAspectRatio s, uploadedImage s))"

text \<open>
  The part after the \<^verbatim>\<open>await\<close>: the \<^verbatim>\<open>try\<close> body on a resolved promise, the
  \<^verbatim>\<open>catch\<close> clause on a rejected one, then the \<^verbatim>\<open>finally\<close> clause.
\<close>

definition handleGenerateClick_settle :: "outcome \<Rightarrow> state \<Rightarrow> state" where
  "handleGenerateClick_settle result s =
     (case result of
        Resolved imageUrl \<Rightarrow> s\<lparr>generatedImageUrl := Some imageUrl\<rparr>
      | Rejected err \<Rightarrow>
          s\<lparr>error :=
               Some (case err of
                       ErrorInstance message \<Rightarrow> message
                     | NotAnError v \<Rightarrow> ''An unknown error occurred.''),
            generatedImageUrl := None\<rparr>)
     \<lparr>isLoading := False\<rparr>"

text \<open>
  The whole handler, run until its promise settles. While the request is pending
  the component disables the prompt, the uploader, the style selector and the
  button and renders only the spinner, so no other handler runs in between. The
  result is the state after the handler and the list of calls it made to the
  client.
\<close>

definition handleGenerateClick :: "client \<Rightarrow> AspectRatio option \<Rightarrow> state \<Rightarrow> state \<times> call list" where
  "handleGenerateClick generate newAspectRatio s =
     (case handleGenerateClick_start newAspectRatio s of
        Returned s' \<Rightarrow> (s', [])
      | Awaiting s' (p, r, img) \<Rightarrow>
          (handleGenerateClick_settle (generate p r img) s', [(p, r, img)]))"

definition handleReset :: "state \<Rightarrow> state" where
  "handleReset s = s\<lparr>generatedImageUrl := None, error := None\<rparr>"

section \<open>What is rendered\<close>

text \<open>
  \<^verbatim>\<open>renderContent\<close> by its four branches: the spinner, the failure card with the
  error, the generated image (with or without the aspect-ratio selector that
  calls \<^verbatim>\<open>handleGenerateClick(ratio)\<close>), or nothing.
\<close>

datatype content = Spinner | GenerationFailed string | GeneratedImage string bool | Nothing

definition renderContent :: "state \<Rightarrow> content" where
  "renderContent s =
     (if isLoading s then Spinner
      else if truthy (error s) then GenerationFailed (the (error s))
      else if truthy (generatedImageUrl s) then
        GeneratedImage (the (generatedImageUrl s)) (isTextOnlyResult s)
      else Nothing)"

definition retryOffered :: "state \<Rightarrow> bool" where
  "retryOffered s = (case renderContent s of GeneratedImage url selector \<Rightarrow> selector | _ \<Rightarrow> False)"

section \<open>Basic facts\<close>

lemma toLowerCase_Fairy_Tale: "toLowerCase ''Fairy Tale'' = ''fairy tale''"
  by code_simp

lemma UNIV_AspectRatio: "(UNIV :: AspectRatio set) = {R1_1, R3_4, R4_3, R9_16, R16_9}"
proof
  show "(UNIV :: AspectRatio set) \<subseteq> {R1_1, R3_4, R4_3, R9_16, R16_9}"
  proof
    fix r :: AspectRatio
    show "r \<in> {R1_1, R3_4, R4_3, R9_16, R16_9}"
      by (cases r) simp_all
  qed
qed simp

text \<open>
  With the loading flag set and a prompt or an image present, the handler returns
  at its second guard: no call to the client, the state as it was.
\<close>

lemma handleGenerateClick_loading:
  assumes "isLoading s" and "prompt s \<noteq> [] \<or> uploadedImage s \<noteq> None"
  shows "handleGenerateClick generate newAspectRatio s = (s, [])"
  using assms by (auto simp: handleGenerateClick_def handleGenerateClick_start_def)

text \<open>
  A submission that passes both guards makes exactly one call to the client and
  settles on its outcome.
\<close>

lemma handleGenerateClick_accepted:
  assumes "\<not> isLoading s" and "prompt s \<noteq> [] \<or> uploadedImage s \<noteq> None"
  shows "handleGenerateClick generate newAspectRatio s =
           (handleGenerateClick_settle
              (generate (finalPrompt s) (currentAspectRatio newAspectRatio s) (uploadedImage s))
              ((case newAspectRatio of
                  Some r \<Rightarrow>
                    s\<lparr>isLoading := True, error := None, generatedImageUrl := None,
                      selectedAspectRatio := r\<rparr>
                | None \<Rightarrow> s\<lparr>isLoading := True, error := None, generatedImageUrl := None\<rparr>)
               \<lparr>isTextOnlyResult := (uploadedImage s = None)\<rparr>),
            [(finalPrompt s, currentAspectRatio newAspectRatio s, uploadedImage s)])"
  using assms
  by (cases newAspectRatio) (auto simp: handleGenerateClick_def handleGenerateClick_start_def)

section \<open>Validation\<close>

text \<open>
  Claim C1. When the prompt is empty and no image is uploaded, the handler sets
  the error to the validation message and returns: the client is not called,
  whatever the argument, the client and the other fields of the state are (the
  loading flag included, since this guard comes first).
\<close>

theorem submit_empty_rejected:
  assumes "prompt s = []" and "uploadedImage s = None"
  shows "handleGenerateClick generate newAspectRatio s =
           (s\<lparr>error := Some ''Please write a prompt or upload an image.''\<rparr>, [])"
  using assms by (simp add: handleGenerateClick_def handleGenerateClick_start_def)

theorem submit_empty_rejected_witness:
  "prompt (initial\<lparr>isLoading := True, generatedImageUrl := Some ''blob:previous''\<rparr>) = [] \<and>
   uploadedImage (initial\<lparr>isLoading := True, generatedImageUrl := Some ''blob:previous''\<rparr>) = None \<and>
   handleGenerateClick (\<lambda>p r img. Resolved ''blob:new'') (Some R9_16)
       (initial\<lparr>isLoading := True, generatedImageUrl := Some ''blob:previous''\<rparr>) =
     (\<lparr>prompt = [], uploadedImage = None, selectedStyle = ''Fairy Tale'',
       selectedAspectRatio = R3_4, isLoading = True,
       generatedImageUrl = Some ''blob:previous'',
       error = Some ''Please write a prompt or upload an image.'',
       isTextOnlyResult = True\<rparr>, [])"
  using submit_empty_rejected
    [of "initial\<lparr>isLoading := True, generatedImageUrl := Some ''blob:previous''\<rparr>"
        "\<lambda>p r img. Resolved ''blob:new''" "Some R9_16"]
  by (simp add: initial_def)

section \<open>A request in flight\<close>

text \<open>
  Claim C2. A request is in flight from the moment the synchronous part of an
  accepted submission leaves its call to the client pending; the state is then
  the one that part has written, with the loading flag set. A further call of the
  handler in that state, whatever its argument, does not call the client and
  returns the state as it is, every field unchanged.
\<close>

theorem duplicate_submit_dropped:
  assumes "handleGenerateClick_start firstAspectRatio s = Awaiting pending firstCall"
  shows "isLoading pending \<and>
         handleGenerateClick generate newAspectRatio pending = (pending, [])"
proof -
  from assms have given: "prompt s \<noteq> [] \<or> uploadedImage s \<noteq> None"
    by (auto simp: handleGenerateClick_start_def split: if_splits)
  from assms have fields:
    "isLoading pending \<and> prompt pending = prompt s \<and> uploadedImage pending = uploadedImage s"
    by (cases firstAspectRatio)
      (auto simp: handleGenerateClick_start_def split: if_splits)
  with given have "prompt pending \<noteq> [] \<or> uploadedImage pending \<noteq> None"
    by simp
  with fields show ?thesis
    by (simp add: handleGenerateClick_loading)
qed

theorem duplicate_submit_dropped_witness:
  "handleGenerateClick_start None (initial\<lparr>prompt := ''A cat''\<rparr>) =
     Awaiting (initial\<lparr>prompt := ''A cat'', isLoading := True\<rparr>)
       (''A cat, in a fairy tale style.'', R3_4, None) \<and>
   isLoading (initial\<lparr>prompt := ''A cat'', isLoading := True\<rparr>) \<and>
   handleGenerateClick (\<lambda>p r img. Resolved ''blob:new'') (Some R9_16)
       (initial\<lparr>prompt := ''A cat'', isLoading := True\<rparr>) =
     (initial\<lparr>prompt := ''A cat'', isLoading := True\<rparr>, [])"
proof -
  let ?pending = "initial\<lparr>prompt := ''A cat'', isLoading := True\<rparr>"
  have started: "handleGenerateClick_start None (initial\<lparr>prompt := ''A cat''\<rparr>) =
      Awaiting ?pending (''A cat, in a fairy tale style.'', R3_4, None)"
    by (simp add: handleGenerateClick_start_def finalPrompt_def currentAspectRatio_def
        initial_def toLowerCase_Fairy_Tale)
  from duplicate_submit_dropped
    [OF started, of "\<lambda>p r img. Resolved ''blob:new''" "Some R9_16"] started
  show ?thesis
    by simp
qed

section \<open>An accepted submission\<close>

text \<open>
  Claim C3. A submission with a non-empty prompt made while no request is in
  flight calls the client once, and the first argument of the call is the prompt
  followed by \<^verbatim>\<open>, in a \<close>, the selected style in lower case and \<^verbatim>\<open> style.\<close>
\<close>

theorem client_receives_styled_prompt:
  assumes "prompt s \<noteq> []" and "\<not> isLoading s"
  shows "map fst (snd (handleGenerateClick generate newAspectRatio s)) =
           [prompt s @ '', in a '' @ toLowerCase (selectedStyle s) @ '' style.'']"
  using assms by (simp add: handleGenerateClick_accepted finalPrompt_def)

theorem client_receives_styled_prompt_witness:
  "prompt (initial\<lparr>prompt := ''A cat wearing a space helmet''\<rparr>) \<noteq> [] \<and>
   \<not> isLoading (initial\<lparr>prompt := ''A cat wearing a space helmet''\<rparr>) \<and>
   map fst (snd (handleGenerateClick (\<lambda>p r img. Resolved ''blob:new'') None
                   (initial\<lparr>prompt := ''A cat wearing a space helmet''\<rparr>))) =
     [''A cat wearing a space helmet, in a fairy tale style.'']"
  using client_receives_styled_prompt
    [of "initial\<lparr>prompt := ''A cat wearing a space helmet''\<rparr>"
        "\<lambda>p r img. Resolved ''blob:new''" None]
  by (simp add: initial_def toLowerCase_Fairy_Tale)

text \<open>
  Claim C4. When an accepted submission's call to the client resolves to the
  image reference \<open>ref\<close>, the handler ends with \<open>generatedImageUrl = ref\<close>, no
  error and the loading flag cleared.
\<close>

theorem success_holds_reference:
  assumes "\<not> isLoading s" and "prompt s \<noteq> [] \<or> uploadedImage s \<noteq> None"
    and "generate (finalPrompt s) (currentAspectRatio newAspectRatio s) (uploadedImage s) =
           Resolved ref"
  shows "generatedImageUrl (fst (handleGenerateClick generate newAspectRatio s)) = Some ref \<and>
         error (fst (handleGenerateClick generate newAspectRatio s)) = None \<and>
         isLoading (fst (handleGenerateClick generate newAspectRatio s)) = False"
  using assms
  by (cases newAspectRatio)
    (simp_all add: handleGenerateClick_accepted handleGenerateClick_settle_def)

theorem success_holds_reference_witness:
  "generatedImageUrl
     (fst (handleGenerateClick (\<lambda>p r img. Resolved (''blob:'' @ p)) None
             (initial\<lparr>prompt := ''A cat'', error := Some ''Network down'',
                generatedImageUrl := Some ''blob:previous''\<rparr>))) =
     Some ''blob:A cat, in a fairy tale style.'' \<and>
   error
     (fst (handleGenerateClick (\<lambda>p r img. Resolved (''blob:'' @ p)) None
             (initial\<lparr>prompt := ''A cat'', error := Some ''Network down'',
                generatedImageUrl := Some ''blob:previous''\<rparr>))) = None \<and>
   isLoading
     (fst (handleGenerateClick (\<lambda>p r img. Resolved (''blob:'' @ p)) None
             (initial\<lparr>prompt := ''A cat'', error := Some ''Network down'',
                generatedImageUrl := Some ''blob:previous''\<rparr>))) = False"
proof -
  let ?s = "initial\<lparr>prompt := ''A cat'', error := Some ''Network down'',
              generatedImageUrl := Some ''blob:previous''\<rparr>"
  let ?generate = "\<lambda>(p :: string) (r :: AspectRatio) (img :: File option). Resolved (''blob:'' @ p)"
  have idle: "\<not> isLoading ?s" and given: "prompt ?s \<noteq> [] \<or> uploadedImage ?s \<noteq> None"
    by (simp_all add: initial_def)
  have resolved: "?generate (finalPrompt ?s) (currentAspectRatio None ?s) (uploadedImage ?s) =
      Resolved ''blob:A cat, in a fairy tale style.''"
    by (simp add: finalPrompt_def initial_def toLowerCase_Fairy_Tale)
  from success_holds_reference [of ?s ?generate None, OF idle given resolved]
  show ?thesis .
qed



section \<open>Reset\<close>

text \<open>
  Claim C6. In every state \<^verbatim>\<open>handleReset\<close> sets the generated image and the
  error to \<^verbatim>\<open>null\<close> and leaves the prompt and the uploaded image (and every
  other field) as they were. With no request in flight, as wherever the button
  that calls it is rendered, nothing is rendered afterwards: the component is
  idle again.
\<close>

theorem reset_clears_result_keeps_inputs:
  "generatedImageUrl (handleReset s) = None \<and>
   error (handleReset s) = None \<and>
   prompt (handleReset s) = prompt s \<and>
   uploadedImage (handleReset s) = uploadedImage s \<and>
   selectedStyle (handleReset s) = selectedStyle s \<and>
   selectedAspectRatio (handleReset s) = selectedAspectRatio s \<and>
   isLoading (handleReset s) = isLoading s \<and>
   isTextOnlyResult (handleReset s) = isTextOnlyResult s \<and>
   (\<not> isLoading s \<longrightarrow> renderContent (handleReset s) = Nothing)"
  by (simp add: handleReset_def renderContent_def truthy_def)

theorem reset_clears_result_keeps_inputs_witness:
  "renderContent
     (initial\<lparr>prompt := ''A cat'', uploadedImage := Some (File ''cat.png''),
        generatedImageUrl := Some ''blob:previous''\<rparr>) =
     GeneratedImage ''blob:previous'' True \<and>
   handleReset
     (initial\<lparr>prompt := ''A cat'', uploadedImage := Some (File ''cat.png''),
        generatedImageUrl := Some ''blob:previous''\<rparr>) =
     initial\<lparr>prompt := ''A cat'', uploadedImage := Some (File ''cat.png'')\<rparr> \<and>
   renderContent
     (handleReset
        (initial\<lparr>prompt := ''A cat'', uploadedImage := Some (File ''cat.png''),
           generatedImageUrl := Some ''blob:previous''\<rparr>)) = Nothing"
proof -
  let ?s = "initial\<lparr>prompt := ''A cat'', uploadedImage := Some (File ''cat.png''),
              generatedImageUrl := Some ''blob:previous''\<rparr>"
  have shown: "renderContent ?s = GeneratedImage ''blob:previous'' True"
    by (simp add: renderContent_def truthy_def initial_def)
  have idle: "\<not> isLoading ?s"
    by (simp add: initial_def)
  have fields: "handleReset ?s = initial\<lparr>prompt := ''A cat'', uploadedImage := Some (File ''cat.png'')\<rparr>"
    using reset_clears_result_keeps_inputs [of ?s]
    by (simp add: initial_def handleReset_def)
  have "renderContent (handleReset ?s) = Nothing"
    using reset_clears_result_keeps_inputs [of ?s] idle by blast
  with shown fields show ?thesis
    by simp
qed

section \<open>Retry with another aspect ratio\<close>

text \<open>
  Claim C7, as stated: every retry \<^verbatim>\<open>handleGenerateClick(newRatio)\<close> passes
  \<open>newRatio\<close> to the client and selects it. The prompt can be edited while a
  result is shown. After a text-only result for \<^verbatim>\<open>A cat\<close> and the prompt
  cleared, the selector is still rendered, and choosing \<^verbatim>\<open>9:16\<close> there stops at
  the validation guard: the client is not called, \<^verbatim>\<open>3:4\<close> stays selected and the
  validation message is set.
\<close>

theorem retry_counterexample:
  "(fst (handleGenerateClick (\<lambda>p r img. Resolved ''blob:ref'') None
          (initial\<lparr>prompt := ''A cat''\<rparr>)))\<lparr>prompt := []\<rparr> =
     initial\<lparr>generatedImageUrl := Some ''blob:ref''\<rparr> \<and>
   retryOffered (initial\<lparr>generatedImageUrl := Some ''blob:ref''\<rparr>) \<and>
   snd (handleGenerateClick (\<lambda>p r img. Resolved ''blob:new'') (Some R9_16)
          (initial\<lparr>generatedImageUrl := Some ''blob:ref''\<rparr>)) = [] \<and>
   selectedAspectRatio
     (fst (handleGenerateClick (\<lambda>p r img. Resolved ''blob:new'') (Some R9_16)
             (initial\<lparr>generatedImageUrl := Some ''blob:ref''\<rparr>))) = R3_4 \<and>
   error
     (fst (handleGenerateClick (\<lambda>p r img. Resolved ''blob:new'') (Some R9_16)
             (initial\<lparr>generatedImageUrl := Some ''blob:ref''\<rparr>))) =
     Some ''Please write a prompt or upload an image.''"
proof -
  let ?s = "initial\<lparr>generatedImageUrl := Some ''blob:ref''\<rparr>"
  have reached: "(fst (handleGenerateClick (\<lambda>p r img. Resolved ''blob:ref'') None
      (initial\<lparr>prompt := ''A cat''\<rparr>)))\<lparr>prompt := []\<rparr> = ?s"
    by (simp add: handleGenerateClick_def handleGenerateClick_start_def
        handleGenerateClick_settle_def initial_def)
  have offered: "retryOffered ?s"
    by (simp add: retryOffered_def renderContent_def truthy_def initial_def)
  have run: "handleGenerateClick (\<lambda>p r img. Resolved ''blob:new'') (Some R9_16) ?s =
      (?s\<lparr>error := Some ''Please write a prompt or upload an image.''\<rparr>, [])"
    by (simp add: handleGenerateClick_def handleGenerateClick_start_def initial_def)
  have "selectedAspectRatio (?s\<lparr>error := Some ''Please write a prompt or upload an image.''\<rparr>) = R3_4"
    by (simp add: initial_def)
  with reached offered run show ?thesis
    by simp
qed

text \<open>
  Claim C7, amended. A retry \<^verbatim>\<open>handleGenerateClick(newRatio)\<close> that passes the
  guards (no request in flight; a prompt or an image present) calls the client
  once with the prompt built from the current prompt and style, with \<open>newRatio\<close>
  (whatever ratio was selected before) and with the current uploaded image, and
  ends with \<open>newRatio\<close> selected. The selector that makes this call is rendered
  only when \<open>isTextOnlyResult\<close> is set, and then no request is in flight.
\<close>

theorem retry_uses_new_ratio:
  "(\<not> isLoading s \<and> (prompt s \<noteq> [] \<or> uploadedImage s \<noteq> None) \<longrightarrow>
      snd (handleGenerateClick generate (Some newRatio) s) =
        [(prompt s @ '', in a '' @ toLowerCase (selectedStyle s) @ '' style.'', newRatio,
          uploadedImage s)] \<and>
      selectedAspectRatio (fst (handleGenerateClick generate (Some newRatio) s)) = newRatio) \<and>
   (retryOffered s \<longrightarrow> isTextOnlyResult s \<and> \<not> isLoading s)"
proof (intro conjI impI)
  assume accepted: "\<not> isLoading s \<and> (prompt s \<noteq> [] \<or> uploadedImage s \<noteq> None)"
  then show "snd (handleGenerateClick generate (Some newRatio) s) =
      [(prompt s @ '', in a '' @ toLowerCase (selectedStyle s) @ '' style.'', newRatio,
        uploadedImage s)]"
    by (simp add: handleGenerateClick_accepted finalPrompt_def currentAspectRatio_def)
  from accepted
  show "selectedAspectRatio (fst (handleGenerateClick generate (Some newRatio) s)) = newRatio"
    by (simp add: handleGenerateClick_accepted handleGenerateClick_settle_def
        split: outcome.split)
next
  assume "retryOffered s"
  then show "isTextOnlyResult s"
    by (simp add: retryOffered_def renderContent_def split: if_splits)
next
  assume "retryOffered s"
  then show "\<not> isLoading s"
    by (simp add: retryOffered_def renderContent_def split: if_splits)
qed

theorem retry_uses_new_ratio_witness:
  "retryOffered (initial\<lparr>prompt := ''A cat'', generatedImageUrl := Some ''blob:previous''\<rparr>) \<and>
   selectedAspectRatio
     (initial\<lparr>prompt := ''A cat'', generatedImageUrl := Some ''blob:previous''\<rparr>) = R3_4 \<and>
   snd (handleGenerateClick (\<lambda>p r img. Resolved ''blob:new'') (Some R9_16)
          (initial\<lparr>prompt := ''A cat'', generatedImageUrl := Some ''blob:previous''\<rparr>)) =
     [(''A cat, in a fairy tale style.'', R9_16, None)] \<and>
   selectedAspectRatio
     (fst (handleGenerateClick (\<lambda>p r img. Resolved ''blob:new'') (Some R9_16)
             (initial\<lparr>prompt := ''A cat'', generatedImageUrl := Some ''blob:previous''\<rparr>))) =
     R9_16 \<and>
   isTextOnlyResult
     (initial\<lparr>prompt := ''A cat'', generatedImageUrl := Some ''blob:previous''\<rparr>)"
proof -
  let ?s = "initial\<lparr>prompt := ''A cat'', generatedImageUrl := Some ''blob:previous''\<rparr>"
  have offered: "retryOffered ?s"
    by (simp add: retryOffered_def renderContent_def truthy_def initial_def)
  have accepted: "\<not> isLoading ?s \<and> (prompt ?s \<noteq> [] \<or> uploadedImage ?s \<noteq> None)"
    by (simp add: initial_def)
  have before: "selectedAspectRatio ?s = R3_4"
    by (simp add: initial_def)
  note at_s = retry_uses_new_ratio [of ?s "\<lambda>p r img. Resolved ''blob:new''" R9_16]
  from at_s accepted
  have calls: "snd (handleGenerateClick (\<lambda>p r img. Resolved ''blob:new'') (Some R9_16) ?s) =
      [(prompt ?s @ '', in a '' @ toLowerCase (selectedStyle ?s) @ '' style.'', R9_16,
        uploadedImage ?s)]"
    and selected: "selectedAspectRatio
      (fst (handleGenerateClick (\<lambda>p r img. Resolved ''blob:new'') (Some R9_16) ?s)) = R9_16"
    by blast+
  from calls
  have calls': "snd (handleGenerateClick (\<lambda>p r img. Resolved ''blob:new'') (Some R9_16) ?s) =
      [(''A cat, in a fairy tale style.'', R9_16, None)]"
    by (simp add: initial_def toLowerCase_Fairy_Tale)
  from at_s offered have "isTextOnlyResult ?s"
    by blast
  with offered before calls' selected show ?thesis
    by simp
qed

section \<open>Text-only results\<close>

text \<open>
  Claim C8. When an accepted submission's call to the client resolves,
  \<open>isTextOnlyResult\<close> is set exactly when no image was uploaded for the request.
  With no image and a displayable (non-empty) reference, the result is then
  rendered with the aspect-ratio selector.
\<close>

theorem text_only_iff_no_image:
  assumes "\<not> isLoading s" and "prompt s \<noteq> [] \<or> uploadedImage s \<noteq> None"
    and "generate (finalPrompt s) (currentAspectRatio newAspectRatio s) (uploadedImage s) =
           Resolved ref"
  shows "isTextOnlyResult (fst (handleGenerateClick generate newAspectRatio s)) =
           (uploadedImage s = None) \<and>
         (uploadedImage s = None \<and> ref \<noteq> [] \<longrightarrow>
            renderContent (fst (handleGenerateClick generate newAspectRatio s)) =
              GeneratedImage ref True \<and>
            retryOffered (fst (handleGenerateClick generate newAspectRatio s)))"
proof -
  from handleGenerateClick_accepted [OF assms(1,2), of generate newAspectRatio] assms(3)
  have "fst (handleGenerateClick generate newAspectRatio s) =
      handleGenerateClick_settle (Resolved ref)
        ((case newAspectRatio of
            Some r \<Rightarrow>
              s\<lparr>isLoading := True, error := None, generatedImageUrl := None,
                selectedAspectRatio := r\<rparr>
          | None \<Rightarrow> s\<lparr>isLoading := True, error := None, generatedImageUrl := None\<rparr>)
         \<lparr>isTextOnlyResult := (uploadedImage s = None)\<rparr>)"
    by simp
  then show ?thesis
    by (cases newAspectRatio)
      (simp_all add: handleGenerateClick_settle_def retryOffered_def renderContent_def truthy_def)
qed

text \<open>
  The example of the specification: \<^verbatim>\<open>"A cat wearing a space helmet"\<close>, style
  \<^verbatim>\<open>"Fairy Tale"\<close>, ratio \<^verbatim>\<open>"3:4"\<close>, no image.
\<close>

theorem text_only_iff_no_image_witness:
  "snd (handleGenerateClick (\<lambda>p r img. Resolved ''blob:ref'') None
          (initial\<lparr>prompt := ''A cat wearing a space helmet''\<rparr>)) =
     [(''A cat wearing a space helmet, in a fairy tale style.'', R3_4, None)] \<and>
   isTextOnlyResult
     (fst (handleGenerateClick (\<lambda>p r img. Resolved ''blob:ref'') None
             (initial\<lparr>prompt := ''A cat wearing a space helmet''\<rparr>))) = True \<and>
   renderContent
     (fst (handleGenerateClick (\<lambda>p r img. Resolved ''blob:ref'') None
             (initial\<lparr>prompt := ''A cat wearing a space helmet''\<rparr>))) =
     GeneratedImage ''blob:ref'' True \<and>
   retryOffered
     (fst (handleGenerateClick (\<lambda>p r img. Resolved ''blob:ref'') None
             (initial\<lparr>prompt := ''A cat wearing a space helmet''\<rparr>)))"
proof -
  let ?s = "initial\<lparr>prompt := ''A cat wearing a space helmet''\<rparr>"
  let ?generate = "\<lambda>(p :: string) (r :: AspectRatio) (img :: File option). Resolved ''blob:ref''"
  have idle: "\<not> isLoading ?s" and given: "prompt ?s \<noteq> [] \<or> uploadedImage ?s \<noteq> None"
    and no_image: "uploadedImage ?s = None"
    by (simp_all add: initial_def)
  have resolved: "?generate (finalPrompt ?s) (currentAspectRatio None ?s) (uploadedImage ?s) =
      Resolved ''blob:ref''"
    by simp
  have calls: "snd (handleGenerateClick ?generate None ?s) =
      [(''A cat wearing a space helmet, in a fairy tale style.'', R3_4, None)]"
    using idle given
    by (simp add: handleGenerateClick_accepted finalPrompt_def currentAspectRatio_def
        initial_def toLowerCase_Fairy_Tale)
  from text_only_iff_no_image [of ?s ?generate None "''blob:ref''", OF idle given resolved] no_image
  have "isTextOnlyResult (fst (handleGenerateClick ?generate None ?s)) = True"
    and "renderContent (fst (handleGenerateClick ?generate None ?s)) =
      GeneratedImage ''blob:ref'' True"
    and "retryOffered (fst (handleGenerateClick ?generate None ?s))"
    by simp_all
  with calls show ?thesis
    by simp
qed

text \<open>With an uploaded image the flag is cleared and the selector is not rendered.\<close>

lemma text_only_cleared_with_image:
  "isTextOnlyResult
     (fst (handleGenerateClick (\<lambda>p r img. Resolved ''blob:ref'') None
             (initial\<lparr>uploadedImage := Some (File ''cat.png'')\<rparr>))) = False \<and>
   renderContent
     (fst (handleGenerateClick (\<lambda>p r img. Resolved ''blob:ref'') None
             (initial\<lparr>uploadedImage := Some (File ''cat.png'')\<rparr>))) =
     GeneratedImage ''blob:ref'' False"
  by (simp add: handleGenerateClick_def handleGenerateClick_start_def
      handleGenerateClick_settle_def renderContent_def truthy_def initial_def)

section \<open>The aspect ratios offered\<close>

text \<open>
  Claim C9. \<^verbatim>\<open>ASPECT_RATIOS\<close> is the list of \<^verbatim>\<open>"3:4"\<close> and \<^verbatim>\<open>"9:16"\<close>, in this
  order, and each of its members is one of the five literals of the type
  \<^verbatim>\<open>AspectRatio\<close>.
\<close>

theorem aspect_ratios_offered:
  "map literal ASPECT_RATIOS = [''3:4'', ''9:16''] \<and>
   set (map literal ASPECT_RATIOS) \<subseteq> range literal \<and>
   range literal = {''1:1'', ''3:4'', ''4:3'', ''9:16'', ''16:9''}"
proof -
  have offered: "map literal ASPECT_RATIOS = [''3:4'', ''9:16'']"
    by (simp add: ASPECT_RATIOS_def literal_def)
  have members: "set (map literal ASPECT_RATIOS) \<subseteq> range literal"
    by auto
  have all_literals: "range literal = {''1:1'', ''3:4'', ''4:3'', ''9:16'', ''16:9''}"
    unfolding UNIV_AspectRatio by (simp add: literal_def)
  from offered members all_literals show ?thesis
    by simp
qed

section \<open>A thrown value that is not an error\<close>

text \<open>
  Claim C10. When an accepted submission's call to the client rejects, the
  handler always ends with some message in \<open>error\<close>; when the thrown value is not
  an instance of \<^verbatim>\<open>Error\<close>, the message is \<^verbatim>\<open>An unknown error occurred.\<close>
\<close>

theorem unknown_error_fallback:
  assumes "\<not> isLoading s" and "prompt s \<noteq> [] \<or> uploadedImage s \<noteq> None"
    and "generate (finalPrompt s) (currentAspectRatio newAspectRatio s) (uploadedImage s) =
           Rejected err"
  shows "error (fst (handleGenerateClick generate newAspectRatio s)) \<noteq> None \<and>
         (err = NotAnError v \<longrightarrow>
            error (fst (handleGenerateClick generate newAspectRatio s)) =
              Some ''An unknown error occurred.'')"
  using assms
  by (cases newAspectRatio)
    (simp_all add: handleGenerateClick_accepted handleGenerateClick_settle_def)

theorem unknown_error_fallback_witness:
  "error
     (fst (handleGenerateClick (\<lambda>p r img. Rejected (NotAnError (JSString ''Quota exceeded'')))
             None (initial\<lparr>uploadedImage := Some (File ''cat.png'')\<rparr>))) =
     Some ''An unknown error occurred.''"
proof -
  let ?s = "initial\<lparr>uploadedImage := Some (File ''cat.png'')\<rparr>"
  let ?generate = "\<lambda>(p :: string) (r :: AspectRatio) (img :: File option).
      Rejected (NotAnError (JSString ''Quota exceeded''))"
  have idle: "\<not> isLoading ?s" and given: "prompt ?s \<noteq> [] \<or> uploadedImage ?s \<noteq> None"
    by (simp_all add: initial_def)
  have rejected: "?generate (finalPrompt ?s) (currentAspectRatio None ?s) (uploadedImage ?s) =
      Rejected (NotAnError (JSString ''Quota exceeded''))"
    by simp
  from unknown_error_fallback
    [of ?s ?generate None "NotAnError (JSString ''Quota exceeded'')" "JSString ''Quota exceeded''",
      OF idle given rejected]
  show ?thesis
    by simp
qed

end
